theory Spec2Isabelle
  imports Complex_Main "HOL-Library.Sublist" "HOL-Library.Multiset"
begin

section \<open>KREVOS restaurant system: numbers, errors and the unit normaliser\<close>

text \<open>
  The program (\<^verbatim>\<open>src/app.py\<close>) is a Streamlit script over five SQLite tables.
  Its REAL columns and Python floats are modelled as exact rationals: rounding and
  overflow of IEEE doubles are not part of the model. The one place where the program
  leaves the finite numbers without raising is the restock branch of
  \<^verbatim>\<open>update_inventory\<close>, whose operands are numpy doubles read from a data frame:
  a zero divisor there gives inf, -inf or nan with a warning. These three values are
  \<open>PInf\<close>, \<open>NInf\<close> and \<open>NaN\<close>, with the arithmetic IEEE 754 gives them. SQLite
  stores a NaN as NULL, so a \<open>NaN\<close> in a column of the store is a NULL.
\<close>

datatype fnum = Fin rat | PInf | NInf | NaN

fun fadd :: "fnum \<Rightarrow> fnum \<Rightarrow> fnum" where
  "fadd (Fin a) (Fin b) = Fin (a + b)"
| "fadd NaN _ = NaN"
| "fadd _ NaN = NaN"
| "fadd PInf NInf = NaN"
| "fadd NInf PInf = NaN"
| "fadd PInf _ = PInf"
| "fadd _ PInf = PInf"
| "fadd NInf _ = NInf"
| "fadd _ NInf = NInf"



definition fsum :: "fnum list \<Rightarrow> fnum" where
  "fsum xs = foldr fadd xs (Fin 0)"

text \<open>The exceptions of Python that the modelled code can raise.\<close>

datatype error = ZeroDivisionError | IndexError | TypeError

text \<open>
  \<^verbatim>\<open>cost / qty\<close> on Python floats raises on a zero divisor;
  \<^verbatim>\<open>new_cost / new_qty\<close> on numpy doubles does not. The zero divisor there is
  the sum of a stored quantity and its negative, which is +0.0.
\<close>

definition py_div :: "rat \<Rightarrow> rat \<Rightarrow> error + rat" where
  "py_div a b = (if b = 0 then Inl ZeroDivisionError else Inr (a / b))"

definition np_div :: "rat \<Rightarrow> rat \<Rightarrow> fnum" where
  "np_div a b =
     (if b = 0 then (if a = 0 then NaN else if 0 < a then PInf else NInf)
      else Fin (a / b))"

subsection \<open>Unit conversion\<close>

definition conversion :: "(string \<times> rat) list" where
  "conversion = [(''kg'', 1000), (''gm'', 1), (''litre'', 1000), (''ml'', 1), (''pieces'', 1)]"

text \<open>\<^verbatim>\<open>conversion.get(unit, 1)\<close>: the multiplier of a unit the table lacks is 1.\<close>

definition to_base_unit :: "rat \<Rightarrow> string \<Rightarrow> rat" where
  "to_base_unit val unit = val * (case map_of conversion unit of Some m \<Rightarrow> m | None \<Rightarrow> 1)"

definition base_unit_type :: "string \<Rightarrow> string" where
  "base_unit_type unit =
     (if unit \<in> set [''kg'', ''gm''] then ''gm''
      else if unit \<in> set [''litre'', ''ml''] then ''ml''
      else ''pieces'')"

text \<open>
  C8. The unit normaliser is total and raises nothing: \<open>to_base_unit\<close> multiplies by
  1000 for kg and litre and by 1 for gm, ml, pieces and every unit it does not know;
  \<open>base_unit_type\<close> sends kg and gm to gm, litre and ml to ml, and everything else to
  pieces.
\<close>

theorem unit_normalizer_table:
  "to_base_unit v u = (if u = ''kg'' \<or> u = ''litre'' then v * 1000 else v * 1)
   \<and> base_unit_type u =
       (if u = ''kg'' \<or> u = ''gm'' then ''gm''
        else if u = ''litre'' \<or> u = ''ml'' then ''ml''
        else ''pieces'')"
  by (simp add: to_base_unit_def base_unit_type_def conversion_def)

section \<open>The store\<close>

text \<open>
  The tables of \<^verbatim>\<open>krevos.db\<close>. \<open>inventory\<close> and \<open>menu\<close> have a primary key
  (item, dish) and are maps from it to the other columns; \<open>recipes\<close>, \<open>sales\<close> and
  \<open>expenses\<close> have none and are lists of rows in insertion order.
\<close>

record inventory_row =
  quantity :: rat
  unit :: string
  total_cost :: rat
  cost_per_unit :: fnum

record recipe_row =
  r_dish :: string
  r_ingredient :: string
  r_amount :: rat
  r_unit :: string

record sale_row =
  s_date :: string
  s_dish :: string
  s_qty :: int
  s_total :: rat

record expense_row =
  e_date :: string
  e_category :: string
  e_amount :: rat
  e_note :: string

record db =
  inventory :: "string \<rightharpoonup> inventory_row"
  menu :: "string \<rightharpoonup> rat"
  recipes :: "recipe_row list"
  sales :: "sale_row list"
  expenses :: "expense_row list"

definition empty_db :: db where
  "empty_db = \<lparr>inventory = Map.empty, menu = Map.empty, recipes = [], sales = [], expenses = []\<rparr>"

section \<open>Inventory ledger\<close>

text \<open>
  \<^verbatim>\<open>update_inventory(item, qty, unit, cost)\<close>. An item with no row is inserted with
  \<^verbatim>\<open>cpu = cost / qty\<close> (Python floats: a zero \<open>qty\<close> raises before anything is
  written). An item with a row gets \<open>qty\<close> and \<open>cost\<close> added and
  \<^verbatim>\<open>cpu = new_cost / new_qty\<close> on numpy doubles; the UPDATE sets quantity,
  total_cost and cost_per_unit only.
\<close>

definition update_inventory :: "string \<Rightarrow> rat \<Rightarrow> string \<Rightarrow> rat \<Rightarrow> db \<Rightarrow> error + db" where
  "update_inventory item qty u cost s =
     (case inventory s item of
        None \<Rightarrow>
          (case py_div cost qty of
             Inl e \<Rightarrow> Inl e
           | Inr cpu \<Rightarrow>
               Inr (s\<lparr>inventory := (inventory s)(item \<mapsto>
                 \<lparr>quantity = qty, unit = u, total_cost = cost, cost_per_unit = Fin cpu\<rparr>)\<rparr>))
      | Some row \<Rightarrow>
          (let new_qty = quantity row + qty;
               new_cost = total_cost row + cost;
               cpu = np_div new_cost new_qty
           in Inr (s\<lparr>inventory := (inventory s)(item \<mapsto>
                 row\<lparr>quantity := new_qty, total_cost := new_cost, cost_per_unit := cpu\<rparr>)\<rparr>)))"

text \<open>
  A run of calls for one item, each a triple (qty, unit, cost), as a script or a test
  makes them: an exception ends the run.
\<close>

fun update_inventory_calls :: "string \<Rightarrow> (rat \<times> string \<times> rat) list \<Rightarrow> db \<Rightarrow> error + db" where
  "update_inventory_calls item [] s = Inr s"
| "update_inventory_calls item ((qty, u, cost) # calls) s =
     (case update_inventory item qty u cost s of
        Inl e \<Rightarrow> Inl e
      | Inr s' \<Rightarrow> update_inventory_calls item calls s')"

text \<open>
  \<^verbatim>\<open>deduct_ingredients(dish, qty)\<close>: one UPDATE per recipe row of the dish,
  \<^verbatim>\<open>SET quantity = quantity - used WHERE item = ingredient\<close>. An ingredient with no
  inventory row matches nothing.
\<close>

definition sql_deduct :: "rat \<Rightarrow> string \<Rightarrow> (string \<rightharpoonup> inventory_row) \<Rightarrow> (string \<rightharpoonup> inventory_row)" where
  "sql_deduct used item stock =
     (case stock item of
        None \<Rightarrow> stock
      | Some row \<Rightarrow> stock(item \<mapsto> row\<lparr>quantity := quantity row - used\<rparr>))"

fun deduct_loop :: "int \<Rightarrow> recipe_row list \<Rightarrow> (string \<rightharpoonup> inventory_row) \<Rightarrow> (string \<rightharpoonup> inventory_row)" where
  "deduct_loop qty [] stock = stock"
| "deduct_loop qty (row # rows) stock =
     deduct_loop qty rows (sql_deduct (r_amount row * of_int qty) (r_ingredient row) stock)"

definition recipe_of :: "string \<Rightarrow> db \<Rightarrow> recipe_row list" where
  "recipe_of dish s = filter (\<lambda>r. r_dish r = dish) (recipes s)"

definition deduct_ingredients :: "string \<Rightarrow> int \<Rightarrow> db \<Rightarrow> db" where
  "deduct_ingredients dish qty s = s\<lparr>inventory := deduct_loop qty (recipe_of dish s) (inventory s)\<rparr>"

text \<open>What one sale of \<open>qty\<close> dishes takes of an item: the sum over the recipe rows naming it.\<close>

definition used_of :: "string \<Rightarrow> int \<Rightarrow> recipe_row list \<Rightarrow> rat" where
  "used_of item qty rows = (\<Sum>r\<leftarrow>filter (\<lambda>r. r_ingredient r = item) rows. r_amount r * of_int qty)"

lemma update_inventory_fresh:
  "inventory s item = None \<Longrightarrow> qty \<noteq> 0 \<Longrightarrow>
   update_inventory item qty u cost s =
     Inr (s\<lparr>inventory := (inventory s)(item \<mapsto>
       \<lparr>quantity = qty, unit = u, total_cost = cost, cost_per_unit = Fin (cost / qty)\<rparr>)\<rparr>)"
  by (simp add: update_inventory_def py_div_def)

lemma update_inventory_fresh_zero:
  "inventory s item = None \<Longrightarrow> update_inventory item 0 u cost s = Inl ZeroDivisionError"
  by (simp add: update_inventory_def py_div_def)

lemma update_inventory_existing:
  "inventory s item = Some row \<Longrightarrow>
   update_inventory item qty u cost s =
     Inr (s\<lparr>inventory := (inventory s)(item \<mapsto>
       row\<lparr>quantity := quantity row + qty, total_cost := total_cost row + cost,
           cost_per_unit := np_div (total_cost row + cost) (quantity row + qty)\<rparr>)\<rparr>)"
  by (simp add: update_inventory_def Let_def)

lemma sql_deduct_apply:
  "sql_deduct used item stock i =
     (if i = item then map_option (\<lambda>row. row\<lparr>quantity := quantity row - used\<rparr>) (stock i) else stock i)"
  by (simp add: sql_deduct_def split: option.splits)

lemma deduct_loop_apply:
  "deduct_loop qty rows stock i =
     map_option (\<lambda>row. row\<lparr>quantity := quantity row - used_of i qty rows\<rparr>) (stock i)"
proof (induction rows arbitrary: stock)
  case Nil
  show ?case by (cases "stock i") (simp_all add: used_of_def)
next
  case (Cons r rows)
  show ?case
    by (cases "stock i") (auto simp: Cons.IH sql_deduct_apply used_of_def algebra_simps)
qed

definition calls_qty :: "(rat \<times> string \<times> rat) list \<Rightarrow> rat" where
  "calls_qty calls = (\<Sum>(qty, u, cost)\<leftarrow>calls. qty)"

definition calls_cost :: "(rat \<times> string \<times> rat) list \<Rightarrow> rat" where
  "calls_cost calls = (\<Sum>(qty, u, cost)\<leftarrow>calls. cost)"

text \<open>
  Example data: the recipe row the recipe builder stores for 0.05 kg of oil in a burger,
  and the store after stocking 2 kg of oil for 400.
\<close>

definition burger_oil :: recipe_row where
  "burger_oil = \<lparr>r_dish = ''Burger'', r_ingredient = ''Oil'',
                  r_amount = to_base_unit (1 / 20) ''kg'', r_unit = base_unit_type ''kg''\<rparr>"

definition burger_db :: db where
  "burger_db =
     \<lparr>inventory = [''Oil'' \<mapsto> \<lparr>quantity = 2, unit = ''kg'', total_cost = 400, cost_per_unit = Fin 200\<rparr>],
      menu = [''Burger'' \<mapsto> 250],
      recipes = [burger_oil],
      sales = [],
      expenses = []\<rparr>"

lemma burger_oil_row:
  "burger_oil = \<lparr>r_dish = ''Burger'', r_ingredient = ''Oil'', r_amount = 50, r_unit = ''gm''\<rparr>"
  by (simp add: burger_oil_def to_base_unit_def base_unit_type_def conversion_def)

lemma calls_qty_simps [simp]:
  "calls_qty [] = 0" "calls_qty ((qty, u, cost) # calls) = qty + calls_qty calls"
  by (simp_all add: calls_qty_def)

lemma calls_cost_simps [simp]:
  "calls_cost [] = 0" "calls_cost ((qty, u, cost) # calls) = cost + calls_cost calls"
  by (simp_all add: calls_cost_def)

lemma update_inventory_calls_existing:
  "inventory s item = Some row \<Longrightarrow>
   \<exists>s'. update_inventory_calls item calls s = Inr s' \<and>
        inventory s' item =
          Some (row\<lparr>quantity := quantity row + calls_qty calls,
                    total_cost := total_cost row + calls_cost calls,
                    cost_per_unit :=
                      (if calls = [] then cost_per_unit row
                       else np_div (total_cost row + calls_cost calls) (quantity row + calls_qty calls))\<rparr>)"
proof (induction calls arbitrary: s row)
  case Nil
  then show ?case by simp
next
  case (Cons call calls)
  obtain qty u cost where call: "call = (qty, u, cost)"
    by (cases call) auto
  let ?row = "row\<lparr>quantity := quantity row + qty, total_cost := total_cost row + cost,
                 cost_per_unit := np_div (total_cost row + cost) (quantity row + qty)\<rparr>"
  let ?s = "s\<lparr>inventory := (inventory s)(item \<mapsto> ?row)\<rparr>"
  have step: "update_inventory item qty u cost s = Inr ?s"
    using Cons.prems by (rule update_inventory_existing)
  have "inventory ?s item = Some ?row" by simp
  from Cons.IH [OF this] obtain s' where
    run: "update_inventory_calls item calls ?s = Inr s'" and
    row': "inventory s' item =
      Some (?row\<lparr>quantity := quantity ?row + calls_qty calls,
                  total_cost := total_cost ?row + calls_cost calls,
                  cost_per_unit :=
                    (if calls = [] then cost_per_unit ?row
                     else np_div (total_cost ?row + calls_cost calls) (quantity ?row + calls_qty calls))\<rparr>)"
    by blast
  have "update_inventory_calls item (call # calls) s = Inr s'"
    by (simp add: call step run)
  moreover have "inventory s' item =
      Some (row\<lparr>quantity := quantity row + calls_qty (call # calls),
                total_cost := total_cost row + calls_cost (call # calls),
                cost_per_unit :=
                  np_div (total_cost row + calls_cost (call # calls))
                         (quantity row + calls_qty (call # calls))\<rparr>)"
    by (cases "calls = []") (simp_all add: row' call add.assoc)
  ultimately show ?case by simp
qed

lemma update_inventory_calls_fresh:
  assumes "inventory s item = None" and "qty \<noteq> 0"
  shows "\<exists>s'. update_inventory_calls item ((qty, u, cost) # calls) s = Inr s' \<and>
          inventory s' item =
            Some \<lparr>quantity = calls_qty ((qty, u, cost) # calls), unit = u,
                  total_cost = calls_cost ((qty, u, cost) # calls),
                  cost_per_unit =
                    np_div (calls_cost ((qty, u, cost) # calls)) (calls_qty ((qty, u, cost) # calls))\<rparr>"
proof -
  let ?row = "\<lparr>quantity = qty, unit = u, total_cost = cost, cost_per_unit = Fin (cost / qty)\<rparr>"
  let ?s = "s\<lparr>inventory := (inventory s)(item \<mapsto> ?row)\<rparr>"
  have step: "update_inventory item qty u cost s = Inr ?s"
    using assms by (rule update_inventory_fresh)
  have "inventory ?s item = Some ?row" by simp
  from update_inventory_calls_existing [OF this, of calls] obtain s' where
    run: "update_inventory_calls item calls ?s = Inr s'" and
    row': "inventory s' item =
      Some (?row\<lparr>quantity := quantity ?row + calls_qty calls,
                  total_cost := total_cost ?row + calls_cost calls,
                  cost_per_unit :=
                    (if calls = [] then cost_per_unit ?row
                     else np_div (total_cost ?row + calls_cost calls) (quantity ?row + calls_qty calls))\<rparr>)"
    by blast
  have "update_inventory_calls item ((qty, u, cost) # calls) s = Inr s'"
    by (simp add: step run)
  moreover have "inventory s' item =
      Some \<lparr>quantity = calls_qty ((qty, u, cost) # calls), unit = u,
            total_cost = calls_cost ((qty, u, cost) # calls),
            cost_per_unit =
              np_div (calls_cost ((qty, u, cost) # calls)) (calls_qty ((qty, u, cost) # calls))\<rparr>"
    using assms(2) by (cases "calls = []") (simp_all add: row' np_div_def)
  ultimately show ?thesis by blast
qed

lemma calls_sums_mset:
  assumes "mset calls = mset calls'"
  shows "calls_qty calls = calls_qty calls'" and "calls_cost calls = calls_cost calls'"
proof -
  have "sum_mset (image_mset f (mset calls)) = sum_mset (image_mset f (mset calls'))"
    for f :: "rat \<times> string \<times> rat \<Rightarrow> rat"
    using assms by simp
  then have eq: "sum_list (map f calls) = sum_list (map f calls')"
    for f :: "rat \<times> string \<times> rat \<Rightarrow> rat"
    by (metis mset_map sum_mset_sum_list)
  show "calls_qty calls = calls_qty calls'" unfolding calls_qty_def by (rule eq)
  show "calls_cost calls = calls_cost calls'" unfolding calls_cost_def by (rule eq)
qed

text \<open>
  C1 (as the code has it). A successful \<open>update_inventory\<close> leaves the item's row with
  \<open>cost_per_unit = total_cost / quantity\<close> (numpy's division: non-finite at quantity 0)
  and touches no other item. \<open>deduct_ingredients\<close> changes nothing but quantities:
  \<open>total_cost\<close> and \<open>cost_per_unit\<close> stay as the last purchase left them.
\<close>

theorem cost_per_unit_after_mutation:
  "(update_inventory item qty u cost s = Inr s' \<longrightarrow>
      (\<exists>row. inventory s' item = Some row \<and>
             cost_per_unit row = np_div (total_cost row) (quantity row)) \<and>
      (\<forall>i. i \<noteq> item \<longrightarrow> inventory s' i = inventory s i))
   \<and> (\<forall>i. inventory (deduct_ingredients dish n s) i =
          map_option (\<lambda>row. row\<lparr>quantity := quantity row - used_of i n (recipe_of dish s)\<rparr>)
            (inventory s i))"
proof (intro conjI impI allI)
  assume ok: "update_inventory item qty u cost s = Inr s'"
  show "\<exists>row. inventory s' item = Some row \<and>
             cost_per_unit row = np_div (total_cost row) (quantity row)"
  proof (cases "inventory s item")
    case None
    with ok have "qty \<noteq> 0"
      by (auto simp: update_inventory_fresh_zero)
    with ok None show ?thesis
      by (auto simp: update_inventory_fresh np_div_def)
  next
    case (Some row)
    with ok show ?thesis
      by (auto simp: update_inventory_existing)
  qed
  fix i assume "i \<noteq> item"
  with ok show "inventory s' i = inventory s i"
    by (auto simp: update_inventory_def py_div_def Let_def split: option.splits if_splits)
next
  fix i
  show "inventory (deduct_ingredients dish n s) i =
          map_option (\<lambda>row. row\<lparr>quantity := quantity row - used_of i n (recipe_of dish s)\<rparr>)
            (inventory s i)"
    by (simp add: deduct_ingredients_def deduct_loop_apply)
qed

theorem cost_per_unit_after_mutation_witness:
  "update_inventory ''Oil'' 1 ''kg'' 250 burger_db
     = Inr (burger_db\<lparr>inventory := [''Oil'' \<mapsto>
         \<lparr>quantity = 3, unit = ''kg'', total_cost = 650, cost_per_unit = Fin (650 / 3)\<rparr>]\<rparr>)
   \<and> (\<exists>row. inventory (burger_db\<lparr>inventory := [''Oil'' \<mapsto>
         \<lparr>quantity = 3, unit = ''kg'', total_cost = 650, cost_per_unit = Fin (650 / 3)\<rparr>]\<rparr>) ''Oil''
           = Some row \<and> cost_per_unit row = np_div (total_cost row) (quantity row))
   \<and> inventory (deduct_ingredients ''Burger'' 2 burger_db) ''Oil''
       = Some \<lparr>quantity = - 98, unit = ''kg'', total_cost = 400, cost_per_unit = Fin 200\<rparr>"
proof -
  let ?s' = "burger_db\<lparr>inventory := [''Oil'' \<mapsto>
         \<lparr>quantity = 3, unit = ''kg'', total_cost = 650, cost_per_unit = Fin (650 / 3)\<rparr>]\<rparr>"
  have run: "update_inventory ''Oil'' 1 ''kg'' 250 burger_db = Inr ?s'"
    by (simp add: update_inventory_def burger_db_def np_div_def Let_def)
  have used: "used_of ''Oil'' 2 (recipe_of ''Burger'' burger_db) = 100"
    by (simp add: used_of_def recipe_of_def burger_db_def burger_oil_row)
  from cost_per_unit_after_mutation [of "''Oil''" 1 "''kg''" 250 burger_db ?s' "''Burger''" 2]
  have row: "\<exists>row. inventory ?s' ''Oil'' = Some row \<and>
             cost_per_unit row = np_div (total_cost row) (quantity row)"
    and ded: "inventory (deduct_ingredients ''Burger'' 2 burger_db) ''Oil'' =
          map_option (\<lambda>row. row\<lparr>quantity := quantity row - used_of ''Oil'' 2 (recipe_of ''Burger'' burger_db)\<rparr>)
            (inventory burger_db ''Oil'')"
    using run by blast+
  have "inventory (deduct_ingredients ''Burger'' 2 burger_db) ''Oil''
       = Some \<lparr>quantity = - 98, unit = ''kg'', total_cost = 400, cost_per_unit = Fin 200\<rparr>"
    unfolding ded used by (simp add: burger_db_def)
  with run row show ?thesis by blast
qed

text \<open>
  The claim as written fails at a sale: two burgers take 100 from the oil row, and the
  stored cost per unit is still the 200 of the purchase, not 400 / (-98).
\<close>

theorem deduct_ingredients_stale_cost_per_unit:
  "update_inventory ''Oil'' 2 ''kg'' 400 (empty_db\<lparr>menu := [''Burger'' \<mapsto> 250], recipes := [burger_oil]\<rparr>)
     = Inr burger_db
   \<and> (\<exists>row. inventory (deduct_ingredients ''Burger'' 2 burger_db) ''Oil'' = Some row
        \<and> quantity row = - 98 \<and> total_cost row = 400 \<and> cost_per_unit row = Fin 200
        \<and> cost_per_unit row \<noteq> np_div (total_cost row) (quantity row))"
  by (simp add: update_inventory_def py_div_def empty_db_def burger_db_def
      deduct_ingredients_def recipe_of_def burger_oil_row sql_deduct_def np_div_def)

text \<open>
  C2 (as the code has it). One call: an unseen item stocked with a nonzero \<open>qty\<close> gets
  the row (qty, unit, cost, cost / qty); an item with a row gets \<open>qty\<close> and \<open>cost\<close>
  added and \<open>cost_per_unit = new total_cost / new quantity\<close>. A run of calls on an
  unseen item whose first call has a nonzero \<open>qty\<close> never fails and ends with
  quantity and total_cost the sums over the calls and cost_per_unit their quotient
  (the weighted average when the summed quantity is not 0); any reordering of the
  calls that also starts with a nonzero \<open>qty\<close> ends with the same three values.
\<close>

theorem weighted_average_costing:
  "(inventory s item = None \<and> qty \<noteq> 0 \<longrightarrow>
      update_inventory item qty u cost s =
        Inr (s\<lparr>inventory := (inventory s)(item \<mapsto>
          \<lparr>quantity = qty, unit = u, total_cost = cost, cost_per_unit = Fin (cost / qty)\<rparr>)\<rparr>))
   \<and> (\<forall>row. inventory s item = Some row \<longrightarrow>
      update_inventory item qty u cost s =
        Inr (s\<lparr>inventory := (inventory s)(item \<mapsto>
          row\<lparr>quantity := quantity row + qty, total_cost := total_cost row + cost,
              cost_per_unit := np_div (total_cost row + cost) (quantity row + qty)\<rparr>)\<rparr>))
   \<and> (inventory s item = None \<and> qty \<noteq> 0 \<longrightarrow>
      (\<exists>s'. update_inventory_calls item ((qty, u, cost) # calls) s = Inr s' \<and>
         inventory s' item =
           Some \<lparr>quantity = calls_qty ((qty, u, cost) # calls), unit = u,
                 total_cost = calls_cost ((qty, u, cost) # calls),
                 cost_per_unit =
                   (if calls_qty ((qty, u, cost) # calls) = 0
                    then (if calls_cost ((qty, u, cost) # calls) = 0 then NaN
                          else if 0 < calls_cost ((qty, u, cost) # calls) then PInf else NInf)
                    else Fin (calls_cost ((qty, u, cost) # calls) / calls_qty ((qty, u, cost) # calls)))\<rparr> \<and>
         (\<forall>qty2 u2 cost2 calls2.
            qty2 \<noteq> 0 \<and> mset ((qty2, u2, cost2) # calls2) = mset ((qty, u, cost) # calls) \<longrightarrow>
            (\<exists>s2. update_inventory_calls item ((qty2, u2, cost2) # calls2) s = Inr s2 \<and>
               map_option quantity (inventory s2 item) = map_option quantity (inventory s' item) \<and>
               map_option total_cost (inventory s2 item) = map_option total_cost (inventory s' item) \<and>
               map_option cost_per_unit (inventory s2 item) =
                 map_option cost_per_unit (inventory s' item)))))"
proof (intro conjI impI allI)
  assume "inventory s item = None \<and> qty \<noteq> 0"
  then show "update_inventory item qty u cost s =
        Inr (s\<lparr>inventory := (inventory s)(item \<mapsto>
          \<lparr>quantity = qty, unit = u, total_cost = cost, cost_per_unit = Fin (cost / qty)\<rparr>)\<rparr>)"
    by (simp add: update_inventory_fresh)
next
  fix row assume "inventory s item = Some row"
  then show "update_inventory item qty u cost s =
        Inr (s\<lparr>inventory := (inventory s)(item \<mapsto>
          row\<lparr>quantity := quantity row + qty, total_cost := total_cost row + cost,
              cost_per_unit := np_div (total_cost row + cost) (quantity row + qty)\<rparr>)\<rparr>)"
    by (rule update_inventory_existing)
next
  let ?calls = "(qty, u, cost) # calls"
  assume fresh: "inventory s item = None \<and> qty \<noteq> 0"
  then obtain s' where
    run: "update_inventory_calls item ?calls s = Inr s'" and
    row: "inventory s' item =
            Some \<lparr>quantity = calls_qty ?calls, unit = u, total_cost = calls_cost ?calls,
                  cost_per_unit = np_div (calls_cost ?calls) (calls_qty ?calls)\<rparr>"
    using update_inventory_calls_fresh [of s item qty u cost calls] by blast
  have reorder: "\<exists>s2. update_inventory_calls item ((qty2, u2, cost2) # calls2) s = Inr s2 \<and>
               map_option quantity (inventory s2 item) = map_option quantity (inventory s' item) \<and>
               map_option total_cost (inventory s2 item) = map_option total_cost (inventory s' item) \<and>
               map_option cost_per_unit (inventory s2 item) =
                 map_option cost_per_unit (inventory s' item)"
    if other: "qty2 \<noteq> 0 \<and> mset ((qty2, u2, cost2) # calls2) = mset ?calls"
    for qty2 u2 cost2 calls2
  proof -
    let ?calls2 = "(qty2, u2, cost2) # calls2"
    obtain s2 where
      run2: "update_inventory_calls item ?calls2 s = Inr s2" and
      row2: "inventory s2 item =
            Some \<lparr>quantity = calls_qty ?calls2, unit = u2, total_cost = calls_cost ?calls2,
                  cost_per_unit = np_div (calls_cost ?calls2) (calls_qty ?calls2)\<rparr>"
      using update_inventory_calls_fresh [where s = s and item = item and qty = qty2
          and u = u2 and cost = cost2 and calls = calls2] fresh other
      by auto
    have "calls_qty ?calls2 = calls_qty ?calls" and "calls_cost ?calls2 = calls_cost ?calls"
      using other calls_sums_mset by blast+
    then show ?thesis
      using run2 by (simp add: row row2)
  qed
  show "\<exists>s'. update_inventory_calls item ?calls s = Inr s' \<and>
         inventory s' item =
           Some \<lparr>quantity = calls_qty ?calls, unit = u,
                 total_cost = calls_cost ?calls,
                 cost_per_unit =
                   (if calls_qty ?calls = 0
                    then (if calls_cost ?calls = 0 then NaN
                          else if 0 < calls_cost ?calls then PInf else NInf)
                    else Fin (calls_cost ?calls / calls_qty ?calls))\<rparr> \<and>
         (\<forall>qty2 u2 cost2 calls2.
            qty2 \<noteq> 0 \<and> mset ((qty2, u2, cost2) # calls2) = mset ?calls \<longrightarrow>
            (\<exists>s2. update_inventory_calls item ((qty2, u2, cost2) # calls2) s = Inr s2 \<and>
               map_option quantity (inventory s2 item) = map_option quantity (inventory s' item) \<and>
               map_option total_cost (inventory s2 item) = map_option total_cost (inventory s' item) \<and>
               map_option cost_per_unit (inventory s2 item) =
                 map_option cost_per_unit (inventory s' item)))"
    using run row reorder by (intro exI [of _ s']) (simp add: np_div_def)
qed

text \<open>
  The example of the specification: 2 kg of oil for 400, then 1 kg for 250, on an empty
  store, gives quantity 3, total cost 650 and cost per unit 650 / 3 = 216.66...; the
  other order gives the same numbers.
\<close>

theorem weighted_average_costing_witness:
  "\<exists>s'. update_inventory_calls ''Oil'' [(2, ''kg'', 400), (1, ''kg'', 250)] empty_db = Inr s' \<and>
      inventory s' ''Oil'' =
        Some \<lparr>quantity = 3, unit = ''kg'', total_cost = 650, cost_per_unit = Fin (650 / 3)\<rparr> \<and>
      (\<exists>s2. update_inventory_calls ''Oil'' [(1, ''kg'', 250), (2, ''kg'', 400)] empty_db = Inr s2 \<and>
         map_option cost_per_unit (inventory s2 ''Oil'') = Some (Fin (650 / 3)))"
proof -
  have fresh: "inventory empty_db ''Oil'' = None \<and> (2::rat) \<noteq> 0"
    by (simp add: empty_db_def)
  from weighted_average_costing [of empty_db "''Oil''" 2 "''kg''" 400 "[(1, ''kg'', 250)]"] fresh
  obtain s' where
    run: "update_inventory_calls ''Oil'' [(2, ''kg'', 400), (1, ''kg'', 250)] empty_db = Inr s'" and
    row: "inventory s' ''Oil'' =
           Some \<lparr>quantity = calls_qty [(2, ''kg'', 400), (1, ''kg'', 250)], unit = ''kg'',
                 total_cost = calls_cost [(2, ''kg'', 400), (1, ''kg'', 250)],
                 cost_per_unit =
                   (if calls_qty [(2, ''kg'', 400), (1, ''kg'', 250)] = 0
                    then (if calls_cost [(2, ''kg'', 400), (1, ''kg'', 250)] = 0 then NaN
                          else if 0 < calls_cost [(2, ''kg'', 400), (1, ''kg'', 250)] then PInf else NInf)
                    else Fin (calls_cost [(2, ''kg'', 400), (1, ''kg'', 250)] /
                              calls_qty [(2, ''kg'', 400), (1, ''kg'', 250)]))\<rparr>" and
    any: "\<forall>qty2 u2 cost2 calls2.
            qty2 \<noteq> 0 \<and> mset ((qty2, u2, cost2) # calls2) = mset [(2, ''kg'', 400), (1, ''kg'', 250)] \<longrightarrow>
            (\<exists>s2. update_inventory_calls ''Oil'' ((qty2, u2, cost2) # calls2) empty_db = Inr s2 \<and>
               map_option quantity (inventory s2 ''Oil'') = map_option quantity (inventory s' ''Oil'') \<and>
               map_option total_cost (inventory s2 ''Oil'') = map_option total_cost (inventory s' ''Oil'') \<and>
               map_option cost_per_unit (inventory s2 ''Oil'') =
                 map_option cost_per_unit (inventory s' ''Oil''))"
    by blast
  have row': "inventory s' ''Oil'' =
        Some \<lparr>quantity = 3, unit = ''kg'', total_cost = 650, cost_per_unit = Fin (650 / 3)\<rparr>"
    using row by simp
  have "(1::rat) \<noteq> 0 \<and>
      mset ((1, ''kg'', 250) # [(2, ''kg'', 400)]) = mset [(2::rat, ''kg'', 400::rat), (1, ''kg'', 250)]"
    by simp
  with any obtain s2 where
    "update_inventory_calls ''Oil'' ((1, ''kg'', 250) # [(2, ''kg'', 400)]) empty_db = Inr s2" and
    "map_option cost_per_unit (inventory s2 ''Oil'') = map_option cost_per_unit (inventory s' ''Oil'')"
    by blast
  then have "\<exists>s2. update_inventory_calls ''Oil'' [(1, ''kg'', 250), (2, ''kg'', 400)] empty_db = Inr s2 \<and>
         map_option cost_per_unit (inventory s2 ''Oil'') = Some (Fin (650 / 3))"
    using row' by simp
  with run row' show ?thesis by blast
qed

text \<open>
  The claim as written asks only for a nonzero summed quantity. The calls (0 for 10)
  and (5 for 20) sum to 5, yet in this order the first call raises and no row exists,
  while in the other order both calls succeed with cost per unit 30 / 5.
\<close>

theorem zero_first_call_breaks_weighted_average:
  "calls_qty [(0, ''kg'', 10), (5, ''kg'', 20)] = 5
   \<and> update_inventory_calls ''Oil'' [(0, ''kg'', 10), (5, ''kg'', 20)] empty_db = Inl ZeroDivisionError
   \<and> (\<exists>s'. update_inventory_calls ''Oil'' [(5, ''kg'', 20), (0, ''kg'', 10)] empty_db = Inr s'
        \<and> inventory s' ''Oil'' =
            Some \<lparr>quantity = 5, unit = ''kg'', total_cost = 30, cost_per_unit = Fin 6\<rparr>)"
  by (simp add: update_inventory_def py_div_def np_div_def empty_db_def Let_def)

text \<open>
  C7. Stocking an item that has no inventory row fails exactly when \<open>qty\<close> is 0, and
  the failure is the division by zero.
\<close>

theorem update_inventory_unseen_fails_iff_zero:
  "inventory s item = None \<Longrightarrow>
   ((\<exists>e. update_inventory item qty u cost s = Inl e) \<longleftrightarrow> qty = 0) \<and>
   (update_inventory item qty u cost s = Inl ZeroDivisionError \<longleftrightarrow> qty = 0) \<and>
   ((\<exists>s'. update_inventory item qty u cost s = Inr s') \<longleftrightarrow> qty \<noteq> 0)"
  by (cases "qty = 0") (simp_all add: update_inventory_fresh update_inventory_fresh_zero)

theorem update_inventory_unseen_fails_iff_zero_witness:
  "inventory empty_db ''Oil'' = None
   \<and> update_inventory ''Oil'' 0 ''kg'' 400 empty_db = Inl ZeroDivisionError
   \<and> (\<exists>s'. update_inventory ''Oil'' 2 ''kg'' 400 empty_db = Inr s')"
proof -
  have fresh: "inventory empty_db ''Oil'' = None"
    by (simp add: empty_db_def)
  from update_inventory_unseen_fails_iff_zero [OF fresh, of 0 "''kg''" 400]
  have "update_inventory ''Oil'' 0 ''kg'' 400 empty_db = Inl ZeroDivisionError"
    by simp
  moreover from update_inventory_unseen_fails_iff_zero [OF fresh, of 2 "''kg''" 400]
  have "\<exists>s'. update_inventory ''Oil'' 2 ''kg'' 400 empty_db = Inr s'"
    by simp
  ultimately show ?thesis using fresh by blast
qed

text \<open>
  C10. Restocking an item that has a row adds the raw numbers to quantity and
  total_cost, recomputes cost_per_unit, and keeps the stored unit: the \<open>unit\<close>
  argument plays no part, whatever it is.
\<close>

theorem restock_ignores_unit:
  "inventory s item = Some row \<Longrightarrow>
   update_inventory item qty u cost s =
     Inr (s\<lparr>inventory := (inventory s)(item \<mapsto>
       \<lparr>quantity = quantity row + qty, unit = unit row, total_cost = total_cost row + cost,
        cost_per_unit = np_div (total_cost row + cost) (quantity row + qty)\<rparr>)\<rparr>)
   \<and> update_inventory item qty u cost s = update_inventory item qty u2 cost s"
  by (cases row) (simp add: update_inventory_existing)

theorem restock_ignores_unit_witness:
  "inventory burger_db ''Oil'' = Some \<lparr>quantity = 2, unit = ''kg'', total_cost = 400, cost_per_unit = Fin 200\<rparr>
   \<and> update_inventory ''Oil'' 500 ''gm'' 100 burger_db =
       Inr (burger_db\<lparr>inventory := (inventory burger_db)(''Oil'' \<mapsto>
         \<lparr>quantity = 502, unit = ''kg'', total_cost = 500, cost_per_unit = Fin (500 / 502)\<rparr>)\<rparr>)"
proof -
  have row: "inventory burger_db ''Oil'' =
      Some \<lparr>quantity = 2, unit = ''kg'', total_cost = 400, cost_per_unit = Fin 200\<rparr>"
    by (simp add: burger_db_def)
  from restock_ignores_unit [OF row, where qty = 500 and u = "''gm''" and cost = 100]
  show ?thesis using row by (simp add: np_div_def)
qed

section \<open>Sale processor\<close>

text \<open>
  The body of the ``Generate Bill'' button (POS Billing): the price is the first menu
  row of the dish (\<^verbatim>\<open>.values[0]\<close> raises IndexError when there is none), the total is
  \<^verbatim>\<open>price * qty\<close>, the ingredients are deducted and one sales row is inserted for
  the current date. \<open>today\<close> stands for \<^verbatim>\<open>datetime.now().strftime("%Y-%m-%d")\<close>. The
  invoice PDF written afterwards reads the store no more and is left out.
\<close>

definition pos_billing :: "string \<Rightarrow> string \<Rightarrow> int \<Rightarrow> db \<Rightarrow> error + db" where
  "pos_billing today dish qty s =
     (case menu s dish of
        None \<Rightarrow> Inl IndexError
      | Some price \<Rightarrow>
          (let total = price * of_int qty;
               s1 = deduct_ingredients dish qty s
           in Inr (s1\<lparr>sales := sales s1 @
                 [\<lparr>s_date = today, s_dish = dish, s_qty = qty, s_total = total\<rparr>]\<rparr>)))"

lemma used_of_absent:
  "item \<notin> r_ingredient ` set rows \<Longrightarrow> used_of item qty rows = 0"
proof -
  assume "item \<notin> r_ingredient ` set rows"
  then have "filter (\<lambda>r. r_ingredient r = item) rows = []"
    by (auto simp: filter_empty_conv)
  then show ?thesis by (simp add: used_of_def)
qed

lemma used_of_single:
  "filter (\<lambda>x. r_ingredient x = item) rows = [r] \<Longrightarrow> used_of item qty rows = r_amount r * of_int qty"
  by (simp add: used_of_def)

text \<open>
  C3. A sale of a dish that has a menu price succeeds. Every inventory row loses what
  the dish's recipe rows naming it amount to, times \<open>qty\<close> (for an ingredient with one
  recipe row: that row's amount times \<open>qty\<close>), and keeps its other columns; a row of an
  item the recipe does not name is unchanged. The total is price times \<open>qty\<close>, with no
  packaging cost, and exactly one sales row (today, dish, qty, total) is appended.
\<close>

theorem pos_billing_effect:
  "menu s dish = Some price \<Longrightarrow>
   \<exists>s'. pos_billing today dish qty s = Inr s' \<and>
     (\<forall>i. inventory s' i =
        map_option (\<lambda>row. row\<lparr>quantity := quantity row - used_of i qty (recipe_of dish s)\<rparr>)
          (inventory s i)) \<and>
     (\<forall>r row. filter (\<lambda>x. r_ingredient x = r_ingredient r) (recipe_of dish s) = [r] \<and>
             inventory s (r_ingredient r) = Some row \<longrightarrow>
        inventory s' (r_ingredient r) = Some (row\<lparr>quantity := quantity row - r_amount r * of_int qty\<rparr>)) \<and>
     (\<forall>i. i \<notin> r_ingredient ` set (recipe_of dish s) \<longrightarrow> inventory s' i = inventory s i) \<and>
     sales s' = sales s @ [\<lparr>s_date = today, s_dish = dish, s_qty = qty, s_total = price * of_int qty\<rparr>] \<and>
     menu s' = menu s \<and> recipes s' = recipes s \<and> expenses s' = expenses s"
proof -
  assume price: "menu s dish = Some price"
  let ?s' = "(deduct_ingredients dish qty s)\<lparr>sales := sales s @
      [\<lparr>s_date = today, s_dish = dish, s_qty = qty, s_total = price * of_int qty\<rparr>]\<rparr>"
  have run: "pos_billing today dish qty s = Inr ?s'"
    using price by (simp add: pos_billing_def Let_def deduct_ingredients_def)
  have inv: "inventory ?s' i =
        map_option (\<lambda>row. row\<lparr>quantity := quantity row - used_of i qty (recipe_of dish s)\<rparr>)
          (inventory s i)" for i
    by (simp add: deduct_ingredients_def deduct_loop_apply)
  have one: "inventory ?s' (r_ingredient r) =
        Some (row\<lparr>quantity := quantity row - r_amount r * of_int qty\<rparr>)"
    if "filter (\<lambda>x. r_ingredient x = r_ingredient r) (recipe_of dish s) = [r] \<and>
        inventory s (r_ingredient r) = Some row" for r row
  proof -
    have "used_of (r_ingredient r) qty (recipe_of dish s) = r_amount r * of_int qty"
      using that by (simp add: used_of_single)
    with that show ?thesis
      unfolding inv by simp
  qed
  have other: "inventory ?s' i = inventory s i"
    if "i \<notin> r_ingredient ` set (recipe_of dish s)" for i
    unfolding inv using that by (cases "inventory s i") (simp_all add: used_of_absent)
  have rest: "sales ?s' = sales s @
        [\<lparr>s_date = today, s_dish = dish, s_qty = qty, s_total = price * of_int qty\<rparr>] \<and>
     menu ?s' = menu s \<and> recipes ?s' = recipes s \<and> expenses ?s' = expenses s"
    by (simp add: deduct_ingredients_def)
  from run inv one other rest show ?thesis
    by (intro exI [of _ ?s']) blast
qed

theorem pos_billing_effect_witness:
  "menu burger_db ''Burger'' = Some 250 \<and>
   (\<exists>s'. pos_billing ''2026-11-04'' ''Burger'' 2 burger_db = Inr s' \<and>
      inventory s' ''Oil'' =
        Some \<lparr>quantity = - 98, unit = ''kg'', total_cost = 400, cost_per_unit = Fin 200\<rparr> \<and>
      inventory s' ''Rice'' = inventory burger_db ''Rice'' \<and>
      sales s' = [\<lparr>s_date = ''2026-11-04'', s_dish = ''Burger'', s_qty = 2, s_total = 500\<rparr>])"
proof -
  have price: "menu burger_db ''Burger'' = Some 250"
    by (simp add: burger_db_def)
  have recipe: "recipe_of ''Burger'' burger_db = [burger_oil]"
    by (simp add: recipe_of_def burger_db_def burger_oil_row)
  from pos_billing_effect [OF price, of "''2026-11-04''" 2] obtain s' where
    run: "pos_billing ''2026-11-04'' ''Burger'' 2 burger_db = Inr s'" and
    one: "\<forall>r row. filter (\<lambda>x. r_ingredient x = r_ingredient r) (recipe_of ''Burger'' burger_db) = [r] \<and>
             inventory burger_db (r_ingredient r) = Some row \<longrightarrow>
        inventory s' (r_ingredient r) = Some (row\<lparr>quantity := quantity row - r_amount r * of_int 2\<rparr>)" and
    other: "\<forall>i. i \<notin> r_ingredient ` set (recipe_of ''Burger'' burger_db) \<longrightarrow>
        inventory s' i = inventory burger_db i" and
    sale: "sales s' = sales burger_db @
        [\<lparr>s_date = ''2026-11-04'', s_dish = ''Burger'', s_qty = 2, s_total = 250 * of_int 2\<rparr>]"
    by blast
  have "filter (\<lambda>x. r_ingredient x = r_ingredient burger_oil) (recipe_of ''Burger'' burger_db) = [burger_oil] \<and>
      inventory burger_db (r_ingredient burger_oil) =
        Some \<lparr>quantity = 2, unit = ''kg'', total_cost = 400, cost_per_unit = Fin 200\<rparr>"
    by (simp add: recipe) (simp add: burger_oil_row burger_db_def)
  with one have "inventory s' (r_ingredient burger_oil) =
      Some (\<lparr>quantity = 2, unit = ''kg'', total_cost = 400, cost_per_unit = Fin 200\<rparr>
        \<lparr>quantity := 2 - r_amount burger_oil * of_int 2\<rparr>)"
    by fastforce
  then have oil: "inventory s' ''Oil'' =
        Some \<lparr>quantity = - 98, unit = ''kg'', total_cost = 400, cost_per_unit = Fin 200\<rparr>"
    by (simp add: burger_oil_row)
  have "''Rice'' \<notin> r_ingredient ` set (recipe_of ''Burger'' burger_db)"
    by (simp add: recipe) (simp add: burger_oil_row)
  with other have rice: "inventory s' ''Rice'' = inventory burger_db ''Rice''"
    by blast
  have "sales s' = [\<lparr>s_date = ''2026-11-04'', s_dish = ''Burger'', s_qty = 2, s_total = 500\<rparr>]"
    using sale by (simp add: burger_db_def)
  with price run oil rice show ?thesis by blast
qed

section \<open>Fixed daily costs\<close>

definition FIXED_STAFF_FOOD :: rat where
  "FIXED_STAFF_FOOD = 100"

definition FIXED_MANAGER_SALARY :: rat where
  "FIXED_MANAGER_SALARY = 450"

text \<open>\<^verbatim>\<open>SELECT * FROM expenses WHERE date=? AND category=...\<close>\<close>

definition fixed_cost_rows :: "string \<Rightarrow> string \<Rightarrow> db \<Rightarrow> expense_row list" where
  "fixed_cost_rows today category s =
     filter (\<lambda>e. e_date e = today \<and> e_category e = category) (expenses s)"

text \<open>One of the two guarded INSERTs: it runs only when the query gave no row.\<close>

definition insert_fixed_cost :: "string \<Rightarrow> string \<Rightarrow> rat \<Rightarrow> db \<Rightarrow> db" where
  "insert_fixed_cost today category amount s =
     (if fixed_cost_rows today category s = []
      then s\<lparr>expenses := expenses s @
             [\<lparr>e_date = today, e_category = category, e_amount = amount, e_note = ''Daily fixed''\<rparr>]\<rparr>
      else s)"

text \<open>
  \<^verbatim>\<open>add_fixed_costs(staff_food, manager_salary)\<close>; \<open>today\<close> stands for
  \<^verbatim>\<open>datetime.now().strftime("%Y-%m-%d")\<close>.
\<close>

definition add_fixed_costs :: "string \<Rightarrow> bool \<Rightarrow> bool \<Rightarrow> db \<Rightarrow> db" where
  "add_fixed_costs today staff_food manager_salary s =
     (let s1 = (if staff_food
                then insert_fixed_cost today ''Staff Food'' FIXED_STAFF_FOOD s else s);
          s2 = (if manager_salary
                then insert_fixed_cost today ''Manager Salary'' FIXED_MANAGER_SALARY s1 else s1)
      in s2)"

text \<open>Any number of calls, each on its day and with its two check boxes.\<close>

fun add_fixed_costs_calls :: "(string \<times> bool \<times> bool) list \<Rightarrow> db \<Rightarrow> db" where
  "add_fixed_costs_calls [] s = s"
| "add_fixed_costs_calls ((today, staff_food, manager_salary) # calls) s =
     add_fixed_costs_calls calls (add_fixed_costs today staff_food manager_salary s)"

text \<open>
  C6. For each category asked for, \<open>add_fixed_costs\<close> appends one expense row for
  today (Staff Food 100, Manager Salary 450) when no row with that date and category
  exists, and nothing otherwise; it touches no other table. A second call on the
  same day changes nothing, and after any run of calls, on any days, the rows of a
  date and one of the two categories number at most one, or as many as there were
  before the run if that was more.
\<close>

text \<open>Two calls on one day from the empty store leave one row of each category.\<close>

lemma fixed_cost_rows_insert:
  "fixed_cost_rows d cat (insert_fixed_cost today category amount s) =
     fixed_cost_rows d cat s @
       (if today = d \<and> category = cat \<and> fixed_cost_rows today category s = []
        then [\<lparr>e_date = today, e_category = category, e_amount = amount, e_note = ''Daily fixed''\<rparr>]
        else [])"
  by (simp add: insert_fixed_cost_def fixed_cost_rows_def)


lemma insert_fixed_cost_at_most_one:
  "length (fixed_cost_rows d cat (insert_fixed_cost today category amount s))
     \<le> max 1 (length (fixed_cost_rows d cat s))"
  by (auto simp: fixed_cost_rows_insert)


lemma add_fixed_costs_at_most_one:
  "length (fixed_cost_rows d cat (add_fixed_costs today staff_food manager_salary s))
     \<le> max 1 (length (fixed_cost_rows d cat s))"
proof -
  let ?s1 = "if staff_food then insert_fixed_cost today ''Staff Food'' FIXED_STAFF_FOOD s else s"
  have one: "length (fixed_cost_rows d cat ?s1) \<le> max 1 (length (fixed_cost_rows d cat s))"
    using insert_fixed_cost_at_most_one [of d cat today "''Staff Food''" FIXED_STAFF_FOOD s]
    by simp
  have "length (fixed_cost_rows d cat (add_fixed_costs today staff_food manager_salary s))
      \<le> max 1 (length (fixed_cost_rows d cat ?s1))"
    using insert_fixed_cost_at_most_one [of d cat today "''Manager Salary''" FIXED_MANAGER_SALARY ?s1]
    by (simp add: add_fixed_costs_def Let_def)
  with one show ?thesis by linarith
qed


lemma add_fixed_costs_calls_at_most_one:
  "length (fixed_cost_rows d cat (add_fixed_costs_calls calls s))
     \<le> max 1 (length (fixed_cost_rows d cat s))"
proof (induction calls arbitrary: s)
  case Nil
  show ?case by simp
next
  case (Cons call calls)
  obtain today staff_food manager_salary where call: "call = (today, staff_food, manager_salary)"
    by (cases call) auto
  have "length (fixed_cost_rows d cat (add_fixed_costs_calls (call # calls) s))
      \<le> max 1 (length (fixed_cost_rows d cat (add_fixed_costs today staff_food manager_salary s)))"
    using Cons.IH [of "add_fixed_costs today staff_food manager_salary s"] by (simp add: call)
  with add_fixed_costs_at_most_one [of d cat today staff_food manager_salary s]
  show ?case by linarith
qed


lemma add_fixed_costs_expenses:
  "expenses (add_fixed_costs today staff_food manager_salary s) =
     expenses s
     @ (if staff_food \<and> fixed_cost_rows today ''Staff Food'' s = []
        then [\<lparr>e_date = today, e_category = ''Staff Food'', e_amount = 100, e_note = ''Daily fixed''\<rparr>]
        else [])
     @ (if manager_salary \<and> fixed_cost_rows today ''Manager Salary'' s = []
        then [\<lparr>e_date = today, e_category = ''Manager Salary'', e_amount = 450, e_note = ''Daily fixed''\<rparr>]
        else [])"
  by (simp add: add_fixed_costs_def insert_fixed_cost_def fixed_cost_rows_def Let_def
      FIXED_STAFF_FOOD_def FIXED_MANAGER_SALARY_def)


lemma add_fixed_costs_other_tables:
  "inventory (add_fixed_costs today staff_food manager_salary s) = inventory s \<and>
   menu (add_fixed_costs today staff_food manager_salary s) = menu s \<and>
   recipes (add_fixed_costs today staff_food manager_salary s) = recipes s \<and>
   sales (add_fixed_costs today staff_food manager_salary s) = sales s"
  by (simp add: add_fixed_costs_def insert_fixed_cost_def Let_def)


lemma fixed_cost_rows_inserted:
  "fixed_cost_rows today category (insert_fixed_cost today category amount s) \<noteq> []"
  by (simp add: fixed_cost_rows_insert)

lemma fixed_cost_rows_kept:
  "fixed_cost_rows d cat s \<noteq> [] \<Longrightarrow>
   fixed_cost_rows d cat (insert_fixed_cost today category amount s) \<noteq> []"
  by (simp add: fixed_cost_rows_insert)

lemma insert_fixed_cost_noop:
  "fixed_cost_rows today category s \<noteq> [] \<Longrightarrow> insert_fixed_cost today category amount s = s"
  by (simp add: insert_fixed_cost_def)

lemma add_fixed_costs_twice:
  "add_fixed_costs today staff_food manager_salary (add_fixed_costs today staff_food manager_salary s)
     = add_fixed_costs today staff_food manager_salary s"
proof -
  let ?A = "insert_fixed_cost today ''Staff Food'' FIXED_STAFF_FOOD"
  let ?B = "insert_fixed_cost today ''Manager Salary'' FIXED_MANAGER_SALARY"
  have a: "?A (?A x) = ?A x" for x
    by (rule insert_fixed_cost_noop) (rule fixed_cost_rows_inserted)
  have b: "?B (?B x) = ?B x" for x
    by (rule insert_fixed_cost_noop) (rule fixed_cost_rows_inserted)
  have ab: "?A (?B (?A x)) = ?B (?A x)" for x
    by (rule insert_fixed_cost_noop) (rule fixed_cost_rows_kept, rule fixed_cost_rows_inserted)
  show ?thesis
    by (cases staff_food; cases manager_salary) (simp_all add: add_fixed_costs_def a b ab)
qed

theorem add_fixed_costs_idempotent:
  "expenses (add_fixed_costs today staff_food manager_salary s) =
     expenses s
     @ (if staff_food \<and> fixed_cost_rows today ''Staff Food'' s = []
        then [\<lparr>e_date = today, e_category = ''Staff Food'', e_amount = 100, e_note = ''Daily fixed''\<rparr>]
        else [])
     @ (if manager_salary \<and> fixed_cost_rows today ''Manager Salary'' s = []
        then [\<lparr>e_date = today, e_category = ''Manager Salary'', e_amount = 450, e_note = ''Daily fixed''\<rparr>]
        else [])
   \<and> inventory (add_fixed_costs today staff_food manager_salary s) = inventory s
   \<and> menu (add_fixed_costs today staff_food manager_salary s) = menu s
   \<and> recipes (add_fixed_costs today staff_food manager_salary s) = recipes s
   \<and> sales (add_fixed_costs today staff_food manager_salary s) = sales s
   \<and> add_fixed_costs today staff_food manager_salary (add_fixed_costs today staff_food manager_salary s)
       = add_fixed_costs today staff_food manager_salary s
   \<and> length (fixed_cost_rows d ''Staff Food'' (add_fixed_costs_calls calls s))
       \<le> max 1 (length (fixed_cost_rows d ''Staff Food'' s))
   \<and> length (fixed_cost_rows d ''Manager Salary'' (add_fixed_costs_calls calls s))
       \<le> max 1 (length (fixed_cost_rows d ''Manager Salary'' s))
   \<and> length (fixed_cost_rows d ''Staff Food'' (add_fixed_costs_calls calls empty_db)) \<le> 1
   \<and> length (fixed_cost_rows d ''Manager Salary'' (add_fixed_costs_calls calls empty_db)) \<le> 1"
proof -
  have "length (fixed_cost_rows d cat empty_db) = 0" for cat
    by (simp add: fixed_cost_rows_def empty_db_def)
  then have "length (fixed_cost_rows d cat (add_fixed_costs_calls calls empty_db)) \<le> 1" for cat
    using add_fixed_costs_calls_at_most_one [of d cat calls empty_db] by simp
  then show ?thesis
    by (intro conjI add_fixed_costs_expenses add_fixed_costs_twice
        add_fixed_costs_calls_at_most_one)
      (simp_all add: add_fixed_costs_other_tables)
qed


lemma add_fixed_costs_example:
  "expenses (add_fixed_costs_calls [(''2026-11-04'', True, True), (''2026-11-04'', True, True)] empty_db) =
     [\<lparr>e_date = ''2026-11-04'', e_category = ''Staff Food'', e_amount = 100, e_note = ''Daily fixed''\<rparr>,
      \<lparr>e_date = ''2026-11-04'', e_category = ''Manager Salary'', e_amount = 450, e_note = ''Daily fixed''\<rparr>]"
  by (simp add: add_fixed_costs_def insert_fixed_cost_def fixed_cost_rows_def Let_def empty_db_def
      FIXED_STAFF_FOOD_def FIXED_MANAGER_SALARY_def)

section \<open>Costing engine\<close>











lemma fadd_zero [simp]: "fadd a (Fin 0) = a" "fadd (Fin 0) a = a"
  by (cases a; simp)+

lemma fsum_simps [simp]: "fsum [] = Fin 0" "fsum (x # xs) = fadd x (fsum xs)"
  by (simp_all add: fsum_def)

lemma fsum_Fin: "fsum (map Fin xs) = Fin (sum_list xs)"
  by (induction xs) simp_all









section \<open>Ledger reports\<close>

text \<open>What a report block puts on the page: the two data frames and, if any, a metric.\<close>

datatype widget =
  Dataframe_sales "sale_row list"
| Dataframe_expenses "expense_row list"
| Metric string rat

text \<open>
  The daily report (lines 261 to 275): \<^verbatim>\<open>WHERE date=?\<close> with today's date, and the
  metric \<^verbatim>\<open>(sales["total"].sum() if not sales.empty else 0) -
  (exp["amount"].sum() if not exp.empty else 0)\<close>.
\<close>

definition daily_report :: "string \<Rightarrow> db \<Rightarrow> widget list" where
  "daily_report today s =
     (let sales_df = filter (\<lambda>r. s_date r = today) (sales s);
          exp_df = filter (\<lambda>e. e_date e = today) (expenses s)
      in [Dataframe_sales sales_df,
          Dataframe_expenses exp_df,
          Metric ''Net Profit Today''
            ((if sales_df \<noteq> [] then sum_list (map s_total sales_df) else 0) -
             (if exp_df \<noteq> [] then sum_list (map e_amount exp_df) else 0))])"

text \<open>
  SQLite's LIKE on ASCII text: \<open>%\<close> matches any run of characters, \<open>_\<close> any one
  character, and a letter matches in either case.
\<close>

definition ascii_lower :: "char \<Rightarrow> char" where
  "ascii_lower c =
     (let n = of_char c :: nat in if 65 \<le> n \<and> n \<le> 90 then char_of (n + 32) else c)"

fun sql_like :: "string \<Rightarrow> string \<Rightarrow> bool" where
  "sql_like [] [] = True"
| "sql_like [] (c # cs) = False"
| "sql_like (p # ps) [] = (p = CHR ''%'' \<and> sql_like ps [])"
| "sql_like (p # ps) (c # cs) =
     (if p = CHR ''%'' then sql_like ps (c # cs) \<or> sql_like (p # ps) cs
      else if p = CHR ''_'' then sql_like ps cs
      else ascii_lower p = ascii_lower c \<and> sql_like ps cs)"

text \<open>
  The monthly report (lines 346 to 356): \<^verbatim>\<open>WHERE date LIKE ?\<close> with the pattern
  \<^verbatim>\<open>f"{month}%"\<close>, where \<open>month\<close> stands for \<^verbatim>\<open>datetime.now().strftime("%Y-%m")\<close>.
  The block shows the two data frames and nothing else.
\<close>

definition monthly_report :: "string \<Rightarrow> db \<Rightarrow> widget list" where
  "monthly_report month s =
     [Dataframe_sales (filter (\<lambda>r. sql_like (month @ ''%'') (s_date r)) (sales s)),
      Dataframe_expenses (filter (\<lambda>e. sql_like (month @ ''%'') (e_date e)) (expenses s))]"

lemma sql_like_percent: "sql_like ''%'' t"
  by (induction t) simp_all

lemma month_char_literal:
  assumes "p \<in> set ''0123456789-''"
  shows "p \<noteq> CHR ''%''" and "p \<noteq> CHR ''_''" and "(ascii_lower p = ascii_lower c) = (p = c)"
proof -
  from assms show "p \<noteq> CHR ''%''" and "p \<noteq> CHR ''_''" by auto
  from assms have low: "(of_char p :: nat) < 65" by auto
  then have p: "ascii_lower p = p" by (simp add: ascii_lower_def)
  show "(ascii_lower p = ascii_lower c) = (p = c)"
  proof (cases "65 \<le> (of_char c :: nat) \<and> (of_char c :: nat) \<le> 90")
    case True
    then have "ascii_lower c = char_of (of_char c + 32 :: nat)"
      by (simp add: ascii_lower_def)
    then have "(of_char (ascii_lower c) :: nat) = (of_char c + 32) mod 256"
      by simp
    with True have "(of_char (ascii_lower c) :: nat) = of_char c + 32"
      by simp
    with low True have "ascii_lower c \<noteq> p" and "c \<noteq> p"
      by auto
    with p show ?thesis by auto
  next
    case False
    then have "ascii_lower c = c" by (auto simp: ascii_lower_def)
    with p show ?thesis by simp
  qed
qed

lemma sql_like_month_prefix:
  "set month \<subseteq> set ''0123456789-'' \<Longrightarrow> sql_like (month @ ''%'') t = prefix month t"
proof (induction month arbitrary: t)
  case Nil
  show ?case using sql_like_percent by simp
next
  case (Cons p month)
  then have p: "p \<in> set ''0123456789-''" and rest: "set month \<subseteq> set ''0123456789-''"
    by simp_all
  note IH = Cons.IH [OF rest]
  note lit = month_char_literal(1) [OF p] month_char_literal(2) [OF p]
  show ?case
  proof (cases t)
    case Nil
    with lit show ?thesis by simp
  next
    case (Cons c cs)
    with lit month_char_literal(3) [OF p, of c] IH [of cs] show ?thesis
      by auto
  qed
qed

text \<open>
  C9 (as the code has it). The daily report shows the sales and the expenses of exactly
  today's date and the net profit, the sum of those sales' totals minus the sum of
  those expenses' amounts; with no rows that is 0. The monthly report shows the sales
  and the expenses whose date starts with the month (a \<^verbatim>\<open>%Y-%m\<close> string: digits and
  a hyphen), empty lists when there are none; it computes no sum and shows no net
  profit.
\<close>

theorem ledger_reports:
  "daily_report today s =
     [Dataframe_sales (filter (\<lambda>r. s_date r = today) (sales s)),
      Dataframe_expenses (filter (\<lambda>e. e_date e = today) (expenses s)),
      Metric ''Net Profit Today''
        (sum_list (map s_total (filter (\<lambda>r. s_date r = today) (sales s))) -
         sum_list (map e_amount (filter (\<lambda>e. e_date e = today) (expenses s))))]
   \<and> (set month \<subseteq> set ''0123456789-'' \<longrightarrow>
        monthly_report month s =
          [Dataframe_sales (filter (\<lambda>r. prefix month (s_date r)) (sales s)),
           Dataframe_expenses (filter (\<lambda>e. prefix month (e_date e)) (expenses s))])
   \<and> (sales s = [] \<and> expenses s = [] \<longrightarrow>
        daily_report today s =
          [Dataframe_sales [], Dataframe_expenses [], Metric ''Net Profit Today'' 0] \<and>
        monthly_report month s = [Dataframe_sales [], Dataframe_expenses []])
   \<and> (\<forall>label v. Metric label v \<notin> set (monthly_report month s))"
proof (intro conjI impI allI)
  show "daily_report today s =
     [Dataframe_sales (filter (\<lambda>r. s_date r = today) (sales s)),
      Dataframe_expenses (filter (\<lambda>e. e_date e = today) (expenses s)),
      Metric ''Net Profit Today''
        (sum_list (map s_total (filter (\<lambda>r. s_date r = today) (sales s))) -
         sum_list (map e_amount (filter (\<lambda>e. e_date e = today) (expenses s))))]"
    by (simp add: daily_report_def Let_def)
next
  assume "set month \<subseteq> set ''0123456789-''"
  then have "sql_like (month @ ''%'') t = prefix month t" for t
    by (rule sql_like_month_prefix)
  then show "monthly_report month s =
          [Dataframe_sales (filter (\<lambda>r. prefix month (s_date r)) (sales s)),
           Dataframe_expenses (filter (\<lambda>e. prefix month (e_date e)) (expenses s))]"
    by (simp add: monthly_report_def)
next
  assume "sales s = [] \<and> expenses s = []"
  then show "daily_report today s =
          [Dataframe_sales [], Dataframe_expenses [], Metric ''Net Profit Today'' 0]"
    and "monthly_report month s = [Dataframe_sales [], Dataframe_expenses []]"
    by (simp_all add: daily_report_def monthly_report_def)
next
  fix label v
  show "Metric label v \<notin> set (monthly_report month s)"
    by (simp add: monthly_report_def)
qed

text \<open>Example: three sales and three expenses over two months.\<close>

definition report_db :: db where
  "report_db =
     \<lparr>inventory = Map.empty,
      menu = [''Burger'' \<mapsto> 250],
      recipes = [],
      sales =
        [\<lparr>s_date = ''2026-10-31'', s_dish = ''Burger'', s_qty = 1, s_total = 250\<rparr>,
         \<lparr>s_date = ''2026-11-03'', s_dish = ''Burger'', s_qty = 3, s_total = 750\<rparr>,
         \<lparr>s_date = ''2026-11-04'', s_dish = ''Burger'', s_qty = 2, s_total = 500\<rparr>],
      expenses =
        [\<lparr>e_date = ''2026-10-30'', e_category = ''Rent'', e_amount = 1000, e_note = ''''\<rparr>,
         \<lparr>e_date = ''2026-11-04'', e_category = ''Bazar'', e_amount = 150, e_note = ''Oil''\<rparr>,
         \<lparr>e_date = ''2026-11-04'', e_category = ''Staff Food'', e_amount = 100,
            e_note = ''Daily fixed''\<rparr>]\<rparr>"

theorem ledger_reports_witness:
  "daily_report ''2026-11-04'' report_db =
     [Dataframe_sales [\<lparr>s_date = ''2026-11-04'', s_dish = ''Burger'', s_qty = 2, s_total = 500\<rparr>],
      Dataframe_expenses
        [\<lparr>e_date = ''2026-11-04'', e_category = ''Bazar'', e_amount = 150, e_note = ''Oil''\<rparr>,
         \<lparr>e_date = ''2026-11-04'', e_category = ''Staff Food'', e_amount = 100,
            e_note = ''Daily fixed''\<rparr>],
      Metric ''Net Profit Today'' 250]
   \<and> monthly_report ''2026-11'' report_db =
     [Dataframe_sales
        [\<lparr>s_date = ''2026-11-03'', s_dish = ''Burger'', s_qty = 3, s_total = 750\<rparr>,
         \<lparr>s_date = ''2026-11-04'', s_dish = ''Burger'', s_qty = 2, s_total = 500\<rparr>],
      Dataframe_expenses
        [\<lparr>e_date = ''2026-11-04'', e_category = ''Bazar'', e_amount = 150, e_note = ''Oil''\<rparr>,
         \<lparr>e_date = ''2026-11-04'', e_category = ''Staff Food'', e_amount = 100,
            e_note = ''Daily fixed''\<rparr>]]
   \<and> daily_report ''2026-11-04'' empty_db =
     [Dataframe_sales [], Dataframe_expenses [], Metric ''Net Profit Today'' 0]
   \<and> monthly_report ''2026-11'' empty_db = [Dataframe_sales [], Dataframe_expenses []]"
proof -
  have month: "set ''2026-11'' \<subseteq> set ''0123456789-''"
    by simp
  have none: "sales empty_db = [] \<and> expenses empty_db = []"
    by (simp add: empty_db_def)
  from ledger_reports [of "''2026-11-04''" report_db "''2026-11''"] month
  have "daily_report ''2026-11-04'' report_db =
     [Dataframe_sales (filter (\<lambda>r. s_date r = ''2026-11-04'') (sales report_db)),
      Dataframe_expenses (filter (\<lambda>e. e_date e = ''2026-11-04'') (expenses report_db)),
      Metric ''Net Profit Today''
        (sum_list (map s_total (filter (\<lambda>r. s_date r = ''2026-11-04'') (sales report_db))) -
         sum_list (map e_amount (filter (\<lambda>e. e_date e = ''2026-11-04'') (expenses report_db))))]"
    and "monthly_report ''2026-11'' report_db =
          [Dataframe_sales (filter (\<lambda>r. prefix ''2026-11'' (s_date r)) (sales report_db)),
           Dataframe_expenses (filter (\<lambda>e. prefix ''2026-11'' (e_date e)) (expenses report_db))]"
    by blast+
  then have full: "daily_report ''2026-11-04'' report_db =
     [Dataframe_sales [\<lparr>s_date = ''2026-11-04'', s_dish = ''Burger'', s_qty = 2, s_total = 500\<rparr>],
      Dataframe_expenses
        [\<lparr>e_date = ''2026-11-04'', e_category = ''Bazar'', e_amount = 150, e_note = ''Oil''\<rparr>,
         \<lparr>e_date = ''2026-11-04'', e_category = ''Staff Food'', e_amount = 100,
            e_note = ''Daily fixed''\<rparr>],
      Metric ''Net Profit Today'' 250]"
    "monthly_report ''2026-11'' report_db =
     [Dataframe_sales
        [\<lparr>s_date = ''2026-11-03'', s_dish = ''Burger'', s_qty = 3, s_total = 750\<rparr>,
         \<lparr>s_date = ''2026-11-04'', s_dish = ''Burger'', s_qty = 2, s_total = 500\<rparr>],
      Dataframe_expenses
        [\<lparr>e_date = ''2026-11-04'', e_category = ''Bazar'', e_amount = 150, e_note = ''Oil''\<rparr>,
         \<lparr>e_date = ''2026-11-04'', e_category = ''Staff Food'', e_amount = 100,
            e_note = ''Daily fixed''\<rparr>]]"
    by (simp_all add: report_db_def)
  from ledger_reports [of "''2026-11-04''" empty_db "''2026-11''"] none
  have "daily_report ''2026-11-04'' empty_db =
          [Dataframe_sales [], Dataframe_expenses [], Metric ''Net Profit Today'' 0]"
    and "monthly_report ''2026-11'' empty_db = [Dataframe_sales [], Dataframe_expenses []]"
    by blast+
  with full show ?thesis by blast
qed

text \<open>
  The claim as written has both reports return a net profit of zero on empty data. On
  the empty store the daily report shows the metric 0; the monthly report shows two
  empty data frames and no metric at all.
\<close>

theorem monthly_report_has_no_net_profit:
  "daily_report ''2026-11-04'' empty_db =
     [Dataframe_sales [], Dataframe_expenses [], Metric ''Net Profit Today'' 0]
   \<and> monthly_report ''2026-11'' empty_db = [Dataframe_sales [], Dataframe_expenses []]
   \<and> (\<forall>label v. Metric label v \<notin> set (monthly_report ''2026-11'' empty_db))"
  by (simp add: daily_report_def monthly_report_def empty_db_def)

section \<open>Statements and commits\<close>

text \<open>
  The script talks to SQLite through one connection. An INSERT or UPDATE changes the
  connection's view of the store inside an open transaction; \<^verbatim>\<open>conn.commit()\<close> writes
  that view to the file. If the process stops, the file holds what the last commit
  wrote. An action is the list of its \<^verbatim>\<open>c.execute\<close> and \<^verbatim>\<open>conn.commit\<close> calls, in
  the order the source makes them; a query is part of the statement that uses its
  result.
\<close>

datatype step = Execute "db \<Rightarrow> db" | Commit

fun run_step :: "step \<Rightarrow> db \<times> db \<Rightarrow> db \<times> db" where
  "run_step (Execute f) (disk, view) = (disk, f view)"
| "run_step Commit (disk, view) = (view, view)"

definition run_steps :: "step list \<Rightarrow> db \<Rightarrow> db \<times> db" where
  "run_steps steps s = fold run_step steps (s, s)"

text \<open>The store in the file when the process stops after the first \<open>k\<close> steps.\<close>

definition on_disk :: "step list \<Rightarrow> nat \<Rightarrow> db \<Rightarrow> db" where
  "on_disk steps k s = fst (run_steps (take k steps) s)"

text \<open>\<^verbatim>\<open>add_fixed_costs\<close>: up to two guarded INSERTs, then the one commit (line 135).\<close>

definition add_fixed_costs_steps :: "string \<Rightarrow> bool \<Rightarrow> bool \<Rightarrow> step list" where
  "add_fixed_costs_steps today staff_food manager_salary =
     (if staff_food then [Execute (insert_fixed_cost today ''Staff Food'' FIXED_STAFF_FOOD)] else [])
     @ (if manager_salary
        then [Execute (insert_fixed_cost today ''Manager Salary'' FIXED_MANAGER_SALARY)] else [])
     @ [Commit]"

text \<open>
  \<^verbatim>\<open>update_inventory\<close>: the query and the division come first (a zero \<open>qty\<close> on an
  unseen item raises there, before any statement), then the INSERT or the UPDATE, then
  the commit (line 153).
\<close>

definition update_inventory_steps :: "string \<Rightarrow> rat \<Rightarrow> string \<Rightarrow> rat \<Rightarrow> db \<Rightarrow> error + step list" where
  "update_inventory_steps item qty u cost s =
     (case inventory s item of
        None \<Rightarrow>
          (case py_div cost qty of
             Inl e \<Rightarrow> Inl e
           | Inr cpu \<Rightarrow>
               Inr [Execute (\<lambda>w. w\<lparr>inventory := (inventory w)(item \<mapsto>
                      \<lparr>quantity = qty, unit = u, total_cost = cost, cost_per_unit = Fin cpu\<rparr>)\<rparr>),
                    Commit])
      | Some row \<Rightarrow>
          (let new_qty = quantity row + qty;
               new_cost = total_cost row + cost;
               cpu = np_div new_cost new_qty
           in Inr [Execute (\<lambda>w. w\<lparr>inventory :=
                      (case inventory w item of
                         None \<Rightarrow> inventory w
                       | Some r \<Rightarrow> (inventory w)(item \<mapsto>
                           r\<lparr>quantity := new_qty, total_cost := new_cost, cost_per_unit := cpu\<rparr>))\<rparr>),
                   Commit]))"

text \<open>
  The ``Add Inventory'' button (lines 288 to 292): \<^verbatim>\<open>update_inventory\<close>, which
  commits, then the INSERT of the Bazar expense and a second commit.
\<close>

definition add_inventory_steps :: "string \<Rightarrow> string \<Rightarrow> rat \<Rightarrow> string \<Rightarrow> rat \<Rightarrow> db \<Rightarrow> error + step list" where
  "add_inventory_steps today item qty u cost s =
     (case update_inventory_steps item qty u cost s of
        Inl e \<Rightarrow> Inl e
      | Inr steps \<Rightarrow>
          Inr (steps @
            [Execute (\<lambda>w. w\<lparr>expenses := expenses w @
               [\<lparr>e_date = today, e_category = ''Bazar'', e_amount = cost, e_note = item\<rparr>]\<rparr>),
             Commit]))"

text \<open>
  \<^verbatim>\<open>deduct_ingredients\<close>: one UPDATE per recipe row read at the start, then its own
  commit (line 167).
\<close>

definition deduct_ingredients_steps :: "string \<Rightarrow> int \<Rightarrow> db \<Rightarrow> step list" where
  "deduct_ingredients_steps dish qty s =
     map (\<lambda>row. Execute (\<lambda>w. w\<lparr>inventory :=
            sql_deduct (r_amount row * of_int qty) (r_ingredient row) (inventory w)\<rparr>))
       (recipe_of dish s)
     @ [Commit]"

text \<open>
  The ``Generate Bill'' button (lines 233 to 240): the price lookup (IndexError without
  a menu row, before any statement), \<^verbatim>\<open>deduct_ingredients\<close> with its commit, then the
  INSERT of the sale and a second commit.
\<close>

definition pos_billing_steps :: "string \<Rightarrow> string \<Rightarrow> int \<Rightarrow> db \<Rightarrow> error + step list" where
  "pos_billing_steps today dish qty s =
     (case menu s dish of
        None \<Rightarrow> Inl IndexError
      | Some price \<Rightarrow>
          Inr (deduct_ingredients_steps dish qty s @
            [Execute (\<lambda>w. w\<lparr>sales := sales w @
               [\<lparr>s_date = today, s_dish = dish, s_qty = qty, s_total = price * of_int qty\<rparr>]\<rparr>),
             Commit]))"

lemma fold_run_step_executes:
  "fold run_step (map Execute fs) (disk, view) = (disk, fold (\<lambda>f w. f w) fs view)"
  by (induction fs arbitrary: view) simp_all

lemma on_disk_nil [simp]: "on_disk [] k s = s"
  by (simp add: on_disk_def run_steps_def)

lemma on_disk_executes_commit:
  "on_disk (map Execute fs @ Commit # rest) k s =
     (if k \<le> length fs then s
      else on_disk rest (k - length fs - 1) (fold (\<lambda>f w. f w) fs s))"
proof (cases "k \<le> length fs")
  case True
  then have "take k (map Execute fs @ Commit # rest) = map Execute (take k fs)"
    by (simp add: take_map)
  then show ?thesis
    using True by (simp add: on_disk_def run_steps_def fold_run_step_executes)
next
  case False
  then obtain j where k: "k = length fs + Suc j"
    by (metis add_Suc_right less_imp_Suc_add not_le)
  then have "take k (map Execute fs @ Commit # rest) = map Execute fs @ Commit # take j rest"
    by simp
  then show ?thesis
    using False k by (simp add: on_disk_def run_steps_def fold_run_step_executes)
qed

lemma deduct_loop_fold:
  "fold (\<lambda>f w. f w)
     (map (\<lambda>row w. w\<lparr>inventory :=
        sql_deduct (r_amount row * of_int qty) (r_ingredient row) (inventory w)\<rparr>) rows) s
   = s\<lparr>inventory := deduct_loop qty rows (inventory s)\<rparr>"
  by (induction rows arbitrary: s) simp_all

lemma on_disk_add_fixed_costs:
  "on_disk (add_fixed_costs_steps today staff_food manager_salary) k s =
     (if k < length (add_fixed_costs_steps today staff_food manager_salary) then s
      else add_fixed_costs today staff_food manager_salary s)"
proof -
  let ?A = "insert_fixed_cost today ''Staff Food'' FIXED_STAFF_FOOD"
  let ?B = "insert_fixed_cost today ''Manager Salary'' FIXED_MANAGER_SALARY"
  let ?fs = "(if staff_food then [?A] else []) @ (if manager_salary then [?B] else [])"
  have steps: "add_fixed_costs_steps today staff_food manager_salary = map Execute ?fs @ Commit # []"
    by (simp add: add_fixed_costs_steps_def)
  have final: "fold (\<lambda>f w. f w) ?fs s = add_fixed_costs today staff_food manager_salary s"
    by (simp add: add_fixed_costs_def)
  have "on_disk (map Execute ?fs @ Commit # []) k s =
      (if k \<le> length ?fs then s else add_fixed_costs today staff_food manager_salary s)"
    unfolding on_disk_executes_commit final by simp
  moreover have "length (map Execute ?fs @ Commit # []) = length ?fs + 1"
    by simp
  ultimately show ?thesis
    unfolding steps by (simp add: less_Suc_eq_le)
qed

lemma update_inventory_steps_fail:
  "(update_inventory_steps item qty u cost s = Inl e) = (update_inventory item qty u cost s = Inl e)"
  by (simp add: update_inventory_steps_def update_inventory_def Let_def
      split: option.splits sum.splits)

lemma on_disk_update_inventory:
  assumes "update_inventory_steps item qty u cost s = Inr steps"
  shows "\<exists>s'. update_inventory item qty u cost s = Inr s' \<and> length steps = 2 \<and>
           (\<forall>k. on_disk steps k s = (if k < 2 then s else s'))"
proof -
  obtain f where steps: "steps = map Execute [f] @ Commit # []"
    and final: "update_inventory item qty u cost s = Inr (f s)"
    using assms
    by (auto simp: update_inventory_steps_def update_inventory_def Let_def
        split: option.splits sum.splits)
  have "on_disk steps k s = (if k < 2 then s else f s)" for k
    unfolding steps on_disk_executes_commit by auto
  with steps final show ?thesis by simp
qed

lemma on_disk_add_inventory:
  assumes "add_inventory_steps today item qty u cost s = Inr steps"
  shows "\<exists>s'. update_inventory item qty u cost s = Inr s' \<and> length steps = 4 \<and>
           (\<forall>k. on_disk steps k s =
              (if k < 2 then s
               else if k < 4 then s'
               else s'\<lparr>expenses := expenses s' @
                      [\<lparr>e_date = today, e_category = ''Bazar'', e_amount = cost, e_note = item\<rparr>]\<rparr>))"
proof -
  let ?g = "\<lambda>w. w\<lparr>expenses := expenses w @
               [\<lparr>e_date = today, e_category = ''Bazar'', e_amount = cost, e_note = item\<rparr>]\<rparr>"
  obtain f where steps: "steps = map Execute [f] @ Commit # (map Execute [?g] @ Commit # [])"
    and final: "update_inventory item qty u cost s = Inr (f s)"
    using assms
    by (auto simp: add_inventory_steps_def update_inventory_steps_def update_inventory_def Let_def
        split: option.splits sum.splits)
  have "on_disk steps k s = (if k < 2 then s else if k < 4 then f s else ?g (f s))" for k
    unfolding steps on_disk_executes_commit by auto
  with steps final show ?thesis by simp
qed

lemma pos_billing_steps_fail:
  "(pos_billing_steps today dish qty s = Inl e) = (pos_billing today dish qty s = Inl e)"
  by (simp add: pos_billing_steps_def pos_billing_def Let_def split: option.splits)

lemma on_disk_pos_billing:
  assumes "pos_billing_steps today dish qty s = Inr steps"
  shows "\<exists>s'. pos_billing today dish qty s = Inr s' \<and>
           length steps = length (recipe_of dish s) + 3 \<and>
           (\<forall>k. on_disk steps k s =
              (if k \<le> length (recipe_of dish s) then s
               else if k < length (recipe_of dish s) + 3 then deduct_ingredients dish qty s
               else s'))"
proof -
  from assms obtain price where price: "menu s dish = Some price"
    by (auto simp: pos_billing_steps_def split: option.splits)
  let ?fs = "map (\<lambda>row w. w\<lparr>inventory :=
        sql_deduct (r_amount row * of_int qty) (r_ingredient row) (inventory w)\<rparr>) (recipe_of dish s)"
  let ?g = "\<lambda>w. w\<lparr>sales := sales w @
               [\<lparr>s_date = today, s_dish = dish, s_qty = qty, s_total = price * of_int qty\<rparr>]\<rparr>"
  have steps: "steps = map Execute ?fs @ Commit # (map Execute [?g] @ Commit # [])"
    using assms price by (simp add: pos_billing_steps_def deduct_ingredients_steps_def comp_def)
  have ded: "fold (\<lambda>f w. f w) ?fs s = deduct_ingredients dish qty s"
    by (simp add: deduct_loop_fold deduct_ingredients_def)
  have final: "pos_billing today dish qty s = Inr (?g (deduct_ingredients dish qty s))"
    using price by (simp add: pos_billing_def Let_def)
  have "on_disk steps k s =
      (if k \<le> length (recipe_of dish s) then s
       else if k < length (recipe_of dish s) + 3 then deduct_ingredients dish qty s
       else ?g (deduct_ingredients dish qty s))" for k
    unfolding steps on_disk_executes_commit ded by auto
  moreover have "length steps = length (recipe_of dish s) + 3"
    unfolding steps by simp
  ultimately show ?thesis
    using final by simp
qed

text \<open>
  C5 (as the code has it). \<open>add_fixed_costs\<close> and \<open>update_inventory\<close> commit once, as
  their last step: a stop before it leaves the file as it was, a stop after it leaves
  the whole effect, and a failing \<open>update_inventory\<close> runs no statement. The sale and
  the ``Add Inventory'' button commit twice: a failing sale runs no statement, but a
  stop after the first commit and before the second leaves the ingredients deducted
  with no sales row, and the stock updated with no Bazar expense row.
\<close>

theorem commit_points:
  "(\<forall>k. on_disk (add_fixed_costs_steps today staff_food manager_salary) k s =
        (if k < length (add_fixed_costs_steps today staff_food manager_salary) then s
         else add_fixed_costs today staff_food manager_salary s))
   \<and> (\<forall>e. update_inventory item qty u cost s = Inl e \<longrightarrow>
          update_inventory_steps item qty u cost s = Inl e \<and>
          add_inventory_steps today item qty u cost s = Inl e)
   \<and> (\<forall>s'. update_inventory item qty u cost s = Inr s' \<longrightarrow>
          (\<exists>steps. update_inventory_steps item qty u cost s = Inr steps \<and>
             (\<forall>k. on_disk steps k s = (if k < length steps then s else s'))))
   \<and> (\<forall>s'. update_inventory item qty u cost s = Inr s' \<longrightarrow>
          (\<exists>steps. add_inventory_steps today item qty u cost s = Inr steps \<and>
             (\<forall>k. on_disk steps k s =
                (if k < 2 then s
                 else if k < length steps then s'
                 else s'\<lparr>expenses := expenses s' @
                        [\<lparr>e_date = today, e_category = ''Bazar'', e_amount = cost,
                           e_note = item\<rparr>]\<rparr>))))
   \<and> (\<forall>e. pos_billing today dish n s = Inl e \<longrightarrow> pos_billing_steps today dish n s = Inl e)
   \<and> (\<forall>s'. pos_billing today dish n s = Inr s' \<longrightarrow>
          (\<exists>steps. pos_billing_steps today dish n s = Inr steps \<and>
             (\<forall>k. on_disk steps k s =
                (if k \<le> length (recipe_of dish s) then s
                 else if k < length steps then deduct_ingredients dish n s
                 else s'))))"
proof (intro conjI allI impI)
  fix k
  show "on_disk (add_fixed_costs_steps today staff_food manager_salary) k s =
        (if k < length (add_fixed_costs_steps today staff_food manager_salary) then s
         else add_fixed_costs today staff_food manager_salary s)"
    by (rule on_disk_add_fixed_costs)
next
  fix e assume "update_inventory item qty u cost s = Inl e"
  then show "update_inventory_steps item qty u cost s = Inl e"
    by (simp add: update_inventory_steps_fail)
  then show "add_inventory_steps today item qty u cost s = Inl e"
    by (simp add: add_inventory_steps_def)
next
  fix s' assume ok: "update_inventory item qty u cost s = Inr s'"
  obtain steps where steps: "update_inventory_steps item qty u cost s = Inr steps"
  proof (cases "update_inventory_steps item qty u cost s")
    case (Inl e)
    with ok show ?thesis by (simp add: update_inventory_steps_fail)
  next
    case (Inr steps)
    then show ?thesis by (rule that)
  qed
  from on_disk_update_inventory [OF steps] ok
  have "\<forall>k. on_disk steps k s = (if k < length steps then s else s')"
    by auto
  with steps show "\<exists>steps. update_inventory_steps item qty u cost s = Inr steps \<and>
             (\<forall>k. on_disk steps k s = (if k < length steps then s else s'))"
    by blast
next
  fix s' assume ok: "update_inventory item qty u cost s = Inr s'"
  let ?final = "s'\<lparr>expenses := expenses s' @
      [\<lparr>e_date = today, e_category = ''Bazar'', e_amount = cost, e_note = item\<rparr>]\<rparr>"
  obtain steps where steps: "add_inventory_steps today item qty u cost s = Inr steps"
  proof (cases "update_inventory_steps item qty u cost s")
    case (Inl e)
    with ok show ?thesis by (simp add: update_inventory_steps_fail)
  next
    case (Inr steps)
    then show ?thesis by (simp add: that add_inventory_steps_def)
  qed
  from on_disk_add_inventory [OF steps] ok
  have "\<forall>k. on_disk steps k s =
      (if k < 2 then s else if k < length steps then s' else ?final)"
    by auto
  with steps show "\<exists>steps. add_inventory_steps today item qty u cost s = Inr steps \<and>
             (\<forall>k. on_disk steps k s =
                (if k < 2 then s else if k < length steps then s' else ?final))"
    by blast
next
  fix e assume "pos_billing today dish n s = Inl e"
  then show "pos_billing_steps today dish n s = Inl e"
    by (simp add: pos_billing_steps_fail)
next
  fix s' assume ok: "pos_billing today dish n s = Inr s'"
  obtain steps where steps: "pos_billing_steps today dish n s = Inr steps"
  proof (cases "pos_billing_steps today dish n s")
    case (Inl e)
    with ok show ?thesis by (simp add: pos_billing_steps_fail)
  next
    case (Inr steps)
    then show ?thesis by (rule that)
  qed
  from on_disk_pos_billing [OF steps] ok
  have "\<forall>k. on_disk steps k s =
      (if k \<le> length (recipe_of dish s) then s
       else if k < length steps then deduct_ingredients dish n s
       else s')"
    by auto
  with steps show "\<exists>steps. pos_billing_steps today dish n s = Inr steps \<and>
             (\<forall>k. on_disk steps k s =
                (if k \<le> length (recipe_of dish s) then s
                 else if k < length steps then deduct_ingredients dish n s
                 else s'))"
    by blast
qed

lemma burger_db_sale:
  "recipe_of ''Burger'' burger_db = [burger_oil]"
  "inventory (deduct_ingredients ''Burger'' 2 burger_db) ''Oil'' =
     Some \<lparr>quantity = - 98, unit = ''kg'', total_cost = 400, cost_per_unit = Fin 200\<rparr>"
  "sales (deduct_ingredients ''Burger'' 2 burger_db) = []"
  by (simp_all add: recipe_of_def deduct_ingredients_def sql_deduct_def burger_db_def burger_oil_row)

theorem commit_points_witness:
  "\<exists>s' steps.
     pos_billing ''2026-11-04'' ''Burger'' 2 burger_db = Inr s' \<and>
     pos_billing_steps ''2026-11-04'' ''Burger'' 2 burger_db = Inr steps \<and>
     length steps = 4 \<and>
     on_disk steps 0 burger_db = burger_db \<and>
     on_disk steps 1 burger_db = burger_db \<and>
     on_disk steps 2 burger_db = deduct_ingredients ''Burger'' 2 burger_db \<and>
     on_disk steps 3 burger_db = deduct_ingredients ''Burger'' 2 burger_db \<and>
     on_disk steps 4 burger_db = s'"
proof -
  obtain s' where sale: "pos_billing ''2026-11-04'' ''Burger'' 2 burger_db = Inr s'"
    by (simp add: pos_billing_def burger_db_def Let_def)
  from commit_points [of "''2026-11-04''" False False burger_db "''Oil''" 0 "''kg''" 0 "''Burger''" 2] sale
  obtain steps where
    steps: "pos_billing_steps ''2026-11-04'' ''Burger'' 2 burger_db = Inr steps" and
    disk: "\<forall>k. on_disk steps k burger_db =
                (if k \<le> length (recipe_of ''Burger'' burger_db) then burger_db
                 else if k < length steps then deduct_ingredients ''Burger'' 2 burger_db
                 else s')"
    by blast
  have len: "length steps = 4"
    using steps
    by (auto simp: pos_billing_steps_def deduct_ingredients_steps_def burger_db_sale(1)
        split: option.splits)
  have "on_disk steps 0 burger_db = burger_db" "on_disk steps 1 burger_db = burger_db"
    "on_disk steps 2 burger_db = deduct_ingredients ''Burger'' 2 burger_db"
    "on_disk steps 3 burger_db = deduct_ingredients ''Burger'' 2 burger_db"
    "on_disk steps 4 burger_db = s'"
    by (simp_all add: disk len burger_db_sale(1))
  with sale steps len show ?thesis by blast
qed

text \<open>
  The claim as written fails for the sale. Two burgers sold from the example store:
  after the two steps of \<open>deduct_ingredients\<close> (the UPDATE and its commit) the file
  has the oil deducted and no sales row, and the sale's last commit is still two
  steps away; the finished sale has the sales row.
\<close>

theorem sale_interrupted_between_commits:
  "\<exists>steps s'.
     pos_billing_steps ''2026-11-04'' ''Burger'' 2 burger_db = Inr steps \<and>
     pos_billing ''2026-11-04'' ''Burger'' 2 burger_db = Inr s' \<and>
     length steps = 4 \<and>
     inventory burger_db ''Oil'' =
       Some \<lparr>quantity = 2, unit = ''kg'', total_cost = 400, cost_per_unit = Fin 200\<rparr> \<and>
     inventory (on_disk steps 2 burger_db) ''Oil'' =
       Some \<lparr>quantity = - 98, unit = ''kg'', total_cost = 400, cost_per_unit = Fin 200\<rparr> \<and>
     sales (on_disk steps 2 burger_db) = [] \<and>
     sales s' = [\<lparr>s_date = ''2026-11-04'', s_dish = ''Burger'', s_qty = 2, s_total = 500\<rparr>]"
proof -
  have price: "menu burger_db ''Burger'' = Some 250"
    by (simp add: burger_db_def)
  obtain steps where steps: "pos_billing_steps ''2026-11-04'' ''Burger'' 2 burger_db = Inr steps"
    using price by (simp add: pos_billing_steps_def)
  from on_disk_pos_billing [OF steps] obtain s' where
    sale: "pos_billing ''2026-11-04'' ''Burger'' 2 burger_db = Inr s'" and
    len: "length steps = length (recipe_of ''Burger'' burger_db) + 3" and
    disk: "\<forall>k. on_disk steps k burger_db =
              (if k \<le> length (recipe_of ''Burger'' burger_db) then burger_db
               else if k < length (recipe_of ''Burger'' burger_db) + 3
                 then deduct_ingredients ''Burger'' 2 burger_db
               else s')"
    by blast
  have two: "on_disk steps 2 burger_db = deduct_ingredients ''Burger'' 2 burger_db"
    by (simp add: disk burger_db_sale(1))
  have "sales s' = [\<lparr>s_date = ''2026-11-04'', s_dish = ''Burger'', s_qty = 2, s_total = 500\<rparr>]"
    using sale price by (auto simp: pos_billing_def Let_def burger_db_sale(3))
  moreover have "inventory burger_db ''Oil'' =
       Some \<lparr>quantity = 2, unit = ''kg'', total_cost = 400, cost_per_unit = Fin 200\<rparr>"
    by (simp add: burger_db_def)
  moreover have "length steps = 4"
    using len by (simp add: burger_db_sale(1))
  ultimately show ?thesis
    using steps sale two burger_db_sale(2,3) by auto
qed

end
